theory Spec2Isabelle
  imports Main "HOL-Library.Word" "HOL-Library.Signed_Division"
begin

unbundle bit_operations_syntax

section \<open>Proof-of-work difficulty: a model of pow.cpp\<close>

text \<open>
  The three functions of \<^verbatim>\<open>src/pow.cpp\<close> (\<^verbatim>\<open>GetNextWorkRequired\<close>,
  \<^verbatim>\<open>CalculateNextWorkRequired\<close>, \<^verbatim>\<open>CheckProofOfWork\<close>) are translated
  statement by statement. C++ machine integers are words: \<^verbatim>\<open>int\<close> and
  \<^verbatim>\<open>unsigned int\<close> are \<open>32 word\<close>, \<^verbatim>\<open>int64_t\<close> is \<open>64 word\<close>,
  \<^verbatim>\<open>uint256\<close> and \<^verbatim>\<open>arith_uint256\<close> are \<open>256 word\<close>. Signed arithmetic is
  two's complement with wrap-around; signed comparison is \<open><s\<close>; a failed
  \<^verbatim>\<open>assert\<close> and a division by zero are values of the type \<open>error\<close>.
  The calls of \<^verbatim>\<open>LogPrintf\<close> write to the log and do not change a result; they
  are left out.
\<close>

subsection \<open>Machine integers\<close>

type_synonym int32 = "32 word"
type_synonym uint32 = "32 word"
type_synonym int64 = "64 word"
type_synonym uint256 = "256 word"
type_synonym arith_uint256 = "256 word"

datatype error = AssertionFailed | DivisionByZero

text \<open>C++ \<^verbatim>\<open>/\<close> and \<^verbatim>\<open>%\<close> on signed operands: the quotient is truncated
  towards zero, the remainder takes the sign of the dividend.\<close>

definition sdiv32 :: "int32 \<Rightarrow> int32 \<Rightarrow> int32" where
  "sdiv32 a b = word_of_int (sint a sdiv sint b)"

definition smod32 :: "int32 \<Rightarrow> int32 \<Rightarrow> int32" where
  "smod32 a b = word_of_int (sint a smod sint b)"

definition sdiv64 :: "int64 \<Rightarrow> int64 \<Rightarrow> int64" where
  "sdiv64 a b = word_of_int (sint a sdiv sint b)"

definition smod64 :: "int64 \<Rightarrow> int64 \<Rightarrow> int64" where
  "smod64 a b = word_of_int (sint a smod sint b)"

text \<open>The integral conversions of C++: \<^verbatim>\<open>int\<close> to \<^verbatim>\<open>int64_t\<close> extends the
  sign, \<^verbatim>\<open>int64_t\<close> to \<^verbatim>\<open>int\<close> keeps the low 32 bits.\<close>

definition int32_to_int64 :: "int32 \<Rightarrow> int64" where
  "int32_to_int64 x = scast x"

definition int64_to_int32 :: "int64 \<Rightarrow> int32" where
  "int64_to_int32 x = ucast x"

subsection \<open>The compact target codec\<close>

text \<open>
  Modelled from the spec: \<^verbatim>\<open>arith_uint256::SetCompact\<close> (arith_uint256.cpp is not
  among the sources). The high-order byte of the compact value is the exponent, the
  low-order three bytes hold the mantissa, whose top bit (\<^verbatim>\<open>0x00800000\<close>) is the
  sign; the value is \<open>mantissa * 256 ^ (exponent - 3)\<close>, kept in 256 bits. The
  result is the triple (value, is_negative, is_overflow); is_overflow says that the
  magnitude does not fit into 256 bits.
\<close>

definition SetCompact :: "uint32 \<Rightarrow> arith_uint256 \<times> bool \<times> bool" where
  "SetCompact nCompact =
     (let nSize = unat (drop_bit 24 nCompact);
          nWord = (if nSize \<le> 3
                   then drop_bit (8 * (3 - nSize)) (nCompact AND 0x007fffff)
                   else nCompact AND 0x007fffff);
          bn = (if nSize \<le> 3 then ucast nWord
                else push_bit (8 * (nSize - 3)) (ucast nWord));
          fNegative = (nWord \<noteq> 0 \<and> nCompact AND 0x00800000 \<noteq> 0);
          fOverflow = (nWord \<noteq> 0 \<and>
                        (nSize > 34 \<or> (nWord > 0xff \<and> nSize > 33)
                                    \<or> (nWord > 0xffff \<and> nSize > 32)))
      in (bn, fNegative, fOverflow))"

text \<open>The number of bytes of the shortest representation of a number.\<close>

fun byte_length :: "nat \<Rightarrow> nat" where
  "byte_length n = (if n = 0 then 0 else Suc (byte_length (n div 256)))"

declare byte_length.simps [simp del]

text \<open>
  Modelled from the spec: \<^verbatim>\<open>arith_uint256::GetCompact\<close> (arith_uint256.cpp is not
  among the sources). The exponent is the minimal byte length of the value, the
  mantissa its three most significant bytes; when the mantissa's top bit would be
  set, the mantissa is shifted by one more byte and the exponent incremented.
\<close>

definition GetCompact :: "arith_uint256 \<Rightarrow> uint32" where
  "GetCompact bn =
     (let nSize = byte_length (unat bn);
          nCompact = (if nSize \<le> 3
                      then push_bit (8 * (3 - nSize)) (ucast bn)
                      else ucast (drop_bit (8 * (nSize - 3)) bn)) :: uint32;
          nSize' = (if nCompact AND 0x00800000 \<noteq> 0 then nSize + 1 else nSize);
          nCompact' = (if nCompact AND 0x00800000 \<noteq> 0 then drop_bit 8 nCompact
                       else nCompact)
      in nCompact' OR push_bit 24 (of_nat nSize'))"

subsection \<open>Consensus parameters and the block index\<close>

text \<open>
  Modelled from the spec: \<^verbatim>\<open>Consensus::Params\<close> (consensus/params.h is not among
  the sources); the fields are the ones pow.cpp reads.
  \<^verbatim>\<open>DifficultyAdjustmentInterval()\<close> is the standard adjustment interval,
  target timespan divided by target spacing.
\<close>

record Params =
  powLimit :: uint256
  BCDHeight :: int32
  BCDBeginPowLimit :: uint256
  nPowTargetSpacing :: int64
  nPowTargetTimespan :: int64
  fPowAllowMinDifficultyBlocks :: bool
  fPowNoRetargeting :: bool

definition DifficultyAdjustmentInterval :: "Params \<Rightarrow> error + int64" where
  "DifficultyAdjustmentInterval params =
     (if nPowTargetSpacing params = 0 then Inl DivisionByZero
      else Inr (sdiv64 (nPowTargetTimespan params) (nPowTargetSpacing params)))"

text \<open>
  Modelled from the spec: \<^verbatim>\<open>CBlockIndex\<close> (chain.h is not among the sources).
  A chain node has a height, a block timestamp, its compact target bits and a link to
  its immediate predecessor (\<^verbatim>\<open>nullptr\<close> at the first block). The timestamp is
  the header's unsigned 32-bit \<^verbatim>\<open>nTime\<close>; \<^verbatim>\<open>GetBlockTime()\<close> returns it as
  \<^verbatim>\<open>int64_t\<close>.
\<close>

datatype CBlockIndex =
  CBlockIndex (nHeight: int32) (nTime: uint32) (nBits: uint32) (pprev: "CBlockIndex option")

definition GetBlockTime :: "CBlockIndex \<Rightarrow> int64" where
  "GetBlockTime pindex = ucast (nTime pindex)"

text \<open>
  Modelled from the spec: \<^verbatim>\<open>CBlockIndex::GetAncestor\<close> (chain.cpp is not among the
  sources): the ancestor at the given height, or nothing when the height is negative
  or above the node's own.
\<close>

fun GetAncestor :: "CBlockIndex \<Rightarrow> int32 \<Rightarrow> CBlockIndex option" where
  "GetAncestor (CBlockIndex h t b prev) height =
     (if h <s height \<or> height <s 0 then None
      else if h = height then Some (CBlockIndex h t b prev)
      else (case prev of None \<Rightarrow> None | Some p \<Rightarrow> GetAncestor p height))"

text \<open>The candidate block's header; pow.cpp reads only its time.\<close>

record CBlockHeader =
  header_nTime :: uint32

definition GetBlockTime_header :: "'a CBlockHeader_scheme \<Rightarrow> int64" where
  "GetBlockTime_header pblock = ucast (header_nTime pblock)"

subsection \<open>Arithmetic on targets\<close>

text \<open>
  Modelled from the spec: the operators \<^verbatim>\<open>*=\<close> and \<^verbatim>\<open>/=\<close> of
  \<^verbatim>\<open>arith_uint256\<close> (arith_uint256.h is not among the sources). By the spec's
  data model a target is an unsigned integer that holds 256 bits; pow.cpp declares it
  as \<^verbatim>\<open>arith_uint256\<close>, and the codec reports overflow beyond that width. Both
  operators update a variable of that type in place, so every intermediate result is
  a 256-bit value: the product is taken modulo \<open>2 ^ 256\<close>. The factor of
  \<^verbatim>\<open>*=\<close> is an unsigned 32-bit operand, to which the \<^verbatim>\<open>int64_t\<close> timespan is
  converted; the divisor of \<^verbatim>\<open>/=\<close> is the \<^verbatim>\<open>int\<close> timespan converted to an
  unsigned 64-bit value and widened. Division truncates; a zero divisor is an error.
\<close>

definition arith_mul :: "arith_uint256 \<Rightarrow> int64 \<Rightarrow> arith_uint256" where
  "arith_mul bn n = bn * ucast (ucast n :: uint32)"

definition arith_div :: "arith_uint256 \<Rightarrow> int32 \<Rightarrow> error + arith_uint256" where
  "arith_div bn d =
     (let b = ucast (int32_to_int64 d) :: arith_uint256
      in if b = 0 then Inl DivisionByZero else Inr (bn div b))"

subsection \<open>CalculateNextWorkRequired\<close>

text \<open>Lines 75 to 82: the expected timespan and the clamp factor of the era.\<close>

definition powTargetTimespan_limit :: "CBlockIndex \<Rightarrow> Params \<Rightarrow> int32 \<times> int32" where
  "powTargetTimespan_limit pindexLast params =
     (if BCDHeight params <s nHeight pindexLast + 1
      then (int64_to_int32 (72 * nPowTargetSpacing params), 2)
      else (int64_to_int32 (nPowTargetTimespan params), 4))"

text \<open>Lines 86 to 89: the elapsed timespan is limited from below (lines 86 and 87)
  and then from above (lines 88 and 89). Both bounds are computed in \<^verbatim>\<open>int\<close> and
  converted to \<^verbatim>\<open>int64_t\<close> for the comparison.\<close>

definition limit_from_below :: "int64 \<Rightarrow> int32 \<Rightarrow> int32 \<Rightarrow> int64" where
  "limit_from_below nActualTimespan powTargetTimespan limit =
     (if nActualTimespan <s int32_to_int64 (sdiv32 powTargetTimespan limit)
      then int32_to_int64 (sdiv32 powTargetTimespan limit)
      else nActualTimespan)"

definition limit_from_above :: "int64 \<Rightarrow> int32 \<Rightarrow> int32 \<Rightarrow> int64" where
  "limit_from_above nActualTimespan powTargetTimespan limit =
     (if int32_to_int64 (powTargetTimespan * limit) <s nActualTimespan
      then int32_to_int64 (powTargetTimespan * limit)
      else nActualTimespan)"

definition limit_adjustment_step :: "int64 \<Rightarrow> int32 \<Rightarrow> int32 \<Rightarrow> int64" where
  "limit_adjustment_step nActualTimespan powTargetTimespan limit =
     limit_from_above (limit_from_below nActualTimespan powTargetTimespan limit)
       powTargetTimespan limit"

text \<open>Lines 92 to 101: the retarget proper, on the decoded old target.\<close>

definition retarget :: "arith_uint256 \<Rightarrow> int64 \<Rightarrow> int32 \<Rightarrow> arith_uint256 \<Rightarrow> error + arith_uint256" where
  "retarget bnOld nActualTimespan powTargetTimespan bnPowLimit =
     (case arith_div (arith_mul bnOld nActualTimespan) powTargetTimespan of
        Inl e \<Rightarrow> Inl e
      | Inr bnNew \<Rightarrow> Inr (if bnNew > bnPowLimit then bnPowLimit else bnNew))"

definition CalculateNextWorkRequired :: "CBlockIndex \<Rightarrow> int64 \<Rightarrow> Params \<Rightarrow> error + uint32" where
  "CalculateNextWorkRequired pindexLast nFirstBlockTime params =
     (if fPowNoRetargeting params then Inr (nBits pindexLast)
      else
        (case powTargetTimespan_limit pindexLast params of (powTargetTimespan, limit) \<Rightarrow>
           let nActualTimespan =
                 limit_adjustment_step (GetBlockTime pindexLast - nFirstBlockTime)
                   powTargetTimespan limit
           in (case retarget (fst (SetCompact (nBits pindexLast))) nActualTimespan
                       powTargetTimespan (powLimit params) of
                 Inl e \<Rightarrow> Inl e
               | Inr bnNew \<Rightarrow> Inr (GetCompact bnNew))))"

subsection \<open>GetNextWorkRequired\<close>

text \<open>Lines 30 to 37: the height counted within the era, and the era's interval.\<close>

definition era_height_interval :: "CBlockIndex \<Rightarrow> Params \<Rightarrow> error + int32 \<times> int32" where
  "era_height_interval pindexLast params =
     (if BCDHeight params <s nHeight pindexLast + 1
      then Inr (nHeight pindexLast + 1 - BCDHeight params, 72)
      else (case DifficultyAdjustmentInterval params of
              Inl e \<Rightarrow> Inl e
            | Inr n \<Rightarrow> Inr (nHeight pindexLast + 1, int64_to_int32 n)))"

text \<open>
  Lines 52 to 55: the loop that returns the bits of the last block that was not mined
  under the minimum-difficulty rule. The loop condition is evaluated left to right and
  stops at the first conjunct that fails, so the interval is only computed for a node
  that has a predecessor.
\<close>

fun last_non_min_difficulty_bits :: "CBlockIndex \<Rightarrow> Params \<Rightarrow> uint32 \<Rightarrow> error + uint32" where
  "last_non_min_difficulty_bits (CBlockIndex h t b prev) params nProofOfWorkLimit =
     (case prev of
        None \<Rightarrow> Inr b
      | Some p \<Rightarrow>
          (case DifficultyAdjustmentInterval params of
             Inl e \<Rightarrow> Inl e
           | Inr n \<Rightarrow>
               if n = 0 then Inl DivisionByZero
               else if smod64 (int32_to_int64 h) n \<noteq> 0 \<and> b = nProofOfWorkLimit
               then last_non_min_difficulty_bits p params nProofOfWorkLimit
               else Inr b))"

definition GetNextWorkRequired ::
    "CBlockIndex option \<Rightarrow> 'a CBlockHeader_scheme \<Rightarrow> Params \<Rightarrow> error + uint32" where
  "GetNextWorkRequired pindexLast pblock params =
     (if pindexLast = None then Inl AssertionFailed
      else
        let nProofOfWorkLimit = GetCompact (powLimit params) in
        (case pindexLast of
           None \<Rightarrow> Inr nProofOfWorkLimit
         | Some pindex \<Rightarrow>
             if nHeight pindex + 1 = BCDHeight params then Inr nProofOfWorkLimit
             else if nHeight pindex + 1 = BCDHeight params + 1
             then Inr (GetCompact (BCDBeginPowLimit params))
             else
               (case era_height_interval pindex params of
                  Inl e \<Rightarrow> Inl e
                | Inr (height, interval) \<Rightarrow>
                    if interval = 0 then Inl DivisionByZero
                    else if smod32 height interval \<noteq> 0 then
                      (if fPowAllowMinDifficultyBlocks params then
                         (if GetBlockTime pindex + nPowTargetSpacing params * 2
                               <s GetBlockTime_header pblock
                          then Inr nProofOfWorkLimit
                          else last_non_min_difficulty_bits pindex params nProofOfWorkLimit)
                       else Inr (nBits pindex))
                    else
                      let nHeightFirst = nHeight pindex - (interval - 1) in
                      if nHeightFirst <s 0 then Inl AssertionFailed
                      else
                        (case GetAncestor pindex nHeightFirst of
                           None \<Rightarrow> Inl AssertionFailed
                         | Some pindexFirst \<Rightarrow>
                             CalculateNextWorkRequired pindex (GetBlockTime pindexFirst) params))))"

subsection \<open>CheckProofOfWork\<close>

definition CheckProofOfWork :: "uint256 \<Rightarrow> uint32 \<Rightarrow> Params \<Rightarrow> bool" where
  "CheckProofOfWork hash bits params =
     (case SetCompact bits of (bnTarget, fNegative, fOverflow) \<Rightarrow>
        if fNegative \<or> bnTarget = 0 \<or> fOverflow \<or> bnTarget > powLimit params
        then False
        else if hash > bnTarget then False
        else True)"

subsection \<open>The difficulty calculation, in the spec's words\<close>

text \<open>
  The actual timespan clamped into the interval from \<open>expected / factor\<close> (truncated
  towards zero) to \<open>expected * factor\<close>, on mathematical integers; and the new
  target: the old target times the clamped timespan, divided by the expected
  timespan with truncation, capped at the ceiling. The new target is computed on
  natural numbers, so the product is the mathematical one and nothing overflows.
\<close>

definition clamp_timespan :: "int \<Rightarrow> int \<Rightarrow> int \<Rightarrow> int" where
  "clamp_timespan actual expected factor =
     max (expected sdiv factor) (min (expected * factor) actual)"

definition new_target :: "nat \<Rightarrow> nat \<Rightarrow> nat \<Rightarrow> nat \<Rightarrow> nat" where
  "new_target old clamped expected ceiling = min (old * clamped div expected) ceiling"

subsection \<open>The backward walk, in the spec's words\<close>



subsection \<open>Example data\<close>

text \<open>The main network's parameters, and a chain node at a given height.\<close>

definition main_params :: Params where
  "main_params =
     \<lparr>powLimit = 0xffff0000000000000000000000000000000000000000000000000000,
      BCDHeight = 495866,
      BCDBeginPowLimit = 0xffffff0000000000000000000000000000000000000000000000000000,
      nPowTargetSpacing = 600,
      nPowTargetTimespan = 1209600,
      fPowAllowMinDifficultyBlocks = False,
      fPowNoRetargeting = False\<rparr>"

definition test_params :: Params where
  "test_params = main_params\<lparr>fPowAllowMinDifficultyBlocks := True\<rparr>"


text \<open>Parameters with a ceiling of 255 bits, as test networks use.\<close>

definition wide_params :: Params where
  "wide_params = main_params
     \<lparr>powLimit := 0x7fffffffffffffffffffffffffffffffffffffffffffffffffffffffffffffff\<rparr>"

section \<open>Properties\<close>

subsection \<open>Auxiliary facts on machine arithmetic\<close>

lemma smod_int_eq_0_iff: "l \<noteq> 0 \<Longrightarrow> (k::int) smod l = 0 \<longleftrightarrow> l dvd k"
  by (auto simp: signed_modulo_int_def sgn_if dvd_eq_mod_eq_0 [symmetric])

lemma smod_int_abs_less: "l \<noteq> 0 \<Longrightarrow> \<bar>(k::int) smod l\<bar> < \<bar>l\<bar>"
  by (auto simp: signed_modulo_int_def sgn_if abs_mult)

lemma sint_smod32: "b \<noteq> 0 \<Longrightarrow> sint (smod32 a b) = sint a smod sint b"
proof -
  assume b: "b \<noteq> 0"
  then have nz: "sint b \<noteq> 0" by (simp add: signed_eq_0_iff)
  have "\<bar>sint a smod sint b\<bar> < \<bar>sint b\<bar>" using nz by (rule smod_int_abs_less)
  moreover have "- (2 ^ 31) \<le> sint b" "sint b < 2 ^ 31"
    using sint_ge [of b] sint_lt [of b] by simp_all
  ultimately have "- (2 ^ 31) \<le> sint a smod sint b" "sint a smod sint b < 2 ^ 31"
    by linarith+
  then show ?thesis
    by (simp add: smod32_def sint_sbintrunc' signed_take_bit_int_eq_self)
qed

lemma smod32_eq_0_iff: "b \<noteq> 0 \<Longrightarrow> smod32 a b = 0 \<longleftrightarrow> sint b dvd sint a"
proof -
  assume b: "b \<noteq> 0"
  have "smod32 a b = 0 \<longleftrightarrow> sint (smod32 a b) = 0" by (simp add: signed_eq_0_iff)
  also have "\<dots> \<longleftrightarrow> sint a smod sint b = 0" by (simp add: sint_smod32 [OF b])
  also have "\<dots> \<longleftrightarrow> sint b dvd sint a" using b by (simp add: smod_int_eq_0_iff signed_eq_0_iff)
  finally show ?thesis .
qed



lemma sint_int32_to_int64: "sint (int32_to_int64 x) = sint x"
  by (simp add: int32_to_int64_def sint_up_scast is_up)



lemma DifficultyAdjustmentInterval_main:
  "DifficultyAdjustmentInterval main_params = Inr 2016"
  by (simp add: DifficultyAdjustmentInterval_def main_params_def sdiv64_def
      signed_divide_int_def)



lemma sint_sdiv32_pos:
  assumes "0 \<le> sint a" "0 < sint b"
  shows "sint (sdiv32 a b) = sint a div sint b"
proof -
  have q: "sint a sdiv sint b = sint a div sint b"
    using assms by (simp add: signed_divide_int_def sgn_if)
  have "0 \<le> sint a div sint b" using assms by (simp add: pos_imp_zdiv_nonneg_iff)
  moreover have "sint a div sint b \<le> sint a"
    using zdiv_mono2 [of "sint a" 1 "sint b"] assms by simp
  moreover have "sint a < 2 ^ 31" using sint_lt [of a] by simp
  ultimately have "- (2 ^ 31) \<le> sint a div sint b" "sint a div sint b < 2 ^ 31"
    by linarith+
  then have "signed_take_bit 31 (sint a div sint b) = sint a div sint b"
    by (intro signed_take_bit_int_eq_self) simp_all
  then show ?thesis by (simp add: sdiv32_def q sint_sbintrunc')
qed

lemma sint_mult32:
  assumes "0 \<le> sint a * sint b" "sint a * sint b < 2 ^ 31"
  shows "sint (a * b :: 32 word) = sint a * sint b"
proof -
  have "signed_take_bit 31 (sint a * sint b) = sint a * sint b"
    using assms by (intro signed_take_bit_int_eq_self) simp_all
  then show ?thesis by (simp add: sint_word_ariths)
qed


lemma limit_adjustment_step_clamp:
  assumes "0 < sint pts" "limit = 2 \<or> limit = 4" "sint pts * sint limit < 2 ^ 31"
  shows "sint (limit_adjustment_step x pts limit)
           = max (sint pts div sint limit) (min (sint pts * sint limit) (sint x))"
proof -
  have l: "0 < sint limit" using assms(2) by auto
  have lo: "sint (sdiv32 pts limit) = sint pts div sint limit"
    using assms(1) l by (simp add: sint_sdiv32_pos)
  have hi: "sint (pts * limit) = sint pts * sint limit"
    using assms l by (intro sint_mult32) simp_all
  have le: "sint pts div sint limit \<le> sint pts * sint limit"
  proof -
    have "sint pts div sint limit \<le> sint pts"
      using zdiv_mono2 [of "sint pts" 1 "sint limit"] assms(1) l by simp
    also have "\<dots> \<le> sint pts * sint limit" using assms(1) l by simp
    finally show ?thesis .
  qed
  show ?thesis
    using le
    by (auto simp: limit_adjustment_step_def limit_from_below_def limit_from_above_def
        word_sless_alt sint_int32_to_int64 lo hi
        max_def min_def)
qed

lemma uint_eq_sint_nonneg:
  fixes w :: "'a::len word"
  assumes "0 \<le> sint w"
  shows "uint w = sint w"
proof -
  have "sint w < 2 ^ (LENGTH('a) - 1)" by (rule sint_lt)
  also have "\<dots> \<le> (2::int) ^ LENGTH('a)" by (simp add: power_increasing)
  finally have "take_bit LENGTH('a) (sint w) = sint w"
    using assms by (simp add: take_bit_int_eq_self)
  then show ?thesis by (simp add: uint_sint)
qed

lemma ucast_timespan:
  fixes c :: int64
  assumes "0 \<le> sint c" "sint c < 2 ^ 32"
  shows "(ucast (ucast c :: uint32) :: arith_uint256) = word_of_int (sint c)"
proof -
  have u: "uint c = sint c" using assms(1) by (rule uint_eq_sint_nonneg)
  have "uint (ucast c :: uint32) = take_bit 32 (uint c)"
    by (simp add: unsigned_ucast_eq)
  also have "\<dots> = uint c"
    using assms u by (simp add: take_bit_int_eq_self)
  finally show ?thesis by (simp add: ucast_eq u)
qed

lemma ucast_divisor:
  fixes d :: int32
  assumes "0 < sint d"
  shows "(ucast (int32_to_int64 d) :: arith_uint256) = word_of_int (sint d)"
proof -
  have "0 \<le> sint (int32_to_int64 d)" using assms by (simp add: sint_int32_to_int64)
  then have "uint (int32_to_int64 d) = sint d"
    by (simp add: uint_eq_sint_nonneg sint_int32_to_int64)
  then show ?thesis by (simp add: ucast_eq)
qed

lemma word_of_int_256_eq_0:
  assumes "0 < k" "k < 2 ^ 31"
  shows "(word_of_int k :: arith_uint256) \<noteq> 0"
proof
  assume "(word_of_int k :: arith_uint256) = 0"
  then have "uint (word_of_int k :: arith_uint256) = 0" by simp
  moreover have "k < 2 ^ 256"
  proof -
    have "(2::int) ^ 31 \<le> 2 ^ 256" by simp
    with assms(2) show ?thesis by linarith
  qed
  ultimately show False
    using assms by (simp add: uint_word_of_int take_bit_int_eq_self)
qed

subsection \<open>The calculation and its description\<close>

lemma limit_cases:
  "powTargetTimespan_limit pindexLast params = (pts, limit) \<Longrightarrow> limit = 2 \<or> limit = 4"
  by (auto simp: powTargetTimespan_limit_def split: if_splits)

lemma clamp_timespan_bounds:
  assumes "0 < e" "f = 2 \<or> f = 4"
  shows "0 \<le> clamp_timespan a e f" "clamp_timespan a e f \<le> e * f"
proof -
  have d: "e sdiv f = e div f" using assms by (auto simp: signed_divide_int_def sgn_if)
  have "0 \<le> e div f" using assms by (auto simp: pos_imp_zdiv_nonneg_iff)
  moreover have "e div f \<le> e" using zdiv_mono2 [of e 1 f] assms by auto
  moreover have "e \<le> e * f" using assms by auto
  ultimately show "0 \<le> clamp_timespan a e f" "clamp_timespan a e f \<le> e * f"
    by (auto simp: clamp_timespan_def d)
qed

lemma sint_limit_adjustment_step:
  assumes "0 < sint pts" "limit = 2 \<or> limit = 4" "sint pts * sint limit < 2 ^ 31"
  shows "sint (limit_adjustment_step x pts limit)
           = clamp_timespan (sint x) (sint pts) (sint limit)"
proof -
  have "sint pts sdiv sint limit = sint pts div sint limit"
    using assms by (auto simp: signed_divide_int_def sgn_if)
  then show ?thesis
    using limit_adjustment_step_clamp [OF assms] by (simp add: clamp_timespan_def)
qed

lemma sint_times_timespan:
  fixes pts :: int32
  assumes "0 < sint pts"
  shows "sint (100 * int32_to_int64 pts) = 100 * sint pts"
    and "sint (4 * int32_to_int64 pts) = 4 * sint pts"
proof -
  have p: "sint pts < 2147483648" using sint_lt [of pts] by simp
  have "- 9223372036854775808 \<le> 100 * sint pts" "100 * sint pts < 9223372036854775808"
    using assms p by linarith+
  then have "signed_take_bit 63 (100 * sint pts) = 100 * sint pts"
    by (intro signed_take_bit_int_eq_self) simp_all
  then show "sint (100 * int32_to_int64 pts) = 100 * sint pts"
    by (simp add: sint_word_ariths sint_int32_to_int64)
  have "- 9223372036854775808 \<le> 4 * sint pts" "4 * sint pts < 9223372036854775808"
    using assms p by linarith+
  then have "signed_take_bit 63 (4 * sint pts) = 4 * sint pts"
    by (intro signed_take_bit_int_eq_self) simp_all
  then show "sint (4 * int32_to_int64 pts) = 4 * sint pts"
    by (simp add: sint_word_ariths sint_int32_to_int64)
qed

lemma clamp_timespan_above:
  assumes "0 < e"
  shows "clamp_timespan (100 * e) e 4 = 4 * e" and "clamp_timespan (4 * e) e 4 = 4 * e"
proof -
  have d: "e sdiv 4 = e div 4" using assms by (simp add: signed_divide_int_def sgn_if)
  have "e div 4 \<le> e" using zdiv_mono2 [of e 1 4] assms by simp
  then have "e div 4 \<le> 4 * e" using assms by linarith
  then show "clamp_timespan (100 * e) e 4 = 4 * e" "clamp_timespan (4 * e) e 4 = 4 * e"
    using assms by (simp_all add: clamp_timespan_def d max_def min_def)
qed




lemma retarget_total:
  assumes "0 < sint pts"
  shows "\<exists>bnNew. retarget old c pts ceiling = Inr bnNew \<and> bnNew \<le> ceiling"
proof -
  have p: "sint pts < 2 ^ 31" using sint_lt [of pts] by simp
  have nz: "(word_of_int (sint pts) :: arith_uint256) \<noteq> 0"
    using assms p by (rule word_of_int_256_eq_0)
  show ?thesis
    using nz by (auto simp: retarget_def arith_div_def Let_def ucast_divisor [OF assms])
qed

lemma unat_word_of_int_small:
  assumes "0 \<le> k" "k < 2 ^ 32"
  shows "unat (word_of_int k :: arith_uint256) = nat k"
proof -
  have "(2::int) ^ 32 \<le> 2 ^ 256" by simp
  with assms(2) have "k < 2 ^ 256" by linarith
  then have "uint (word_of_int k :: arith_uint256) = k"
    using assms(1) by (simp add: uint_word_of_int take_bit_int_eq_self)
  then show ?thesis by (simp only: unat_eq_nat_uint)
qed

lemma multiply_then_divide_exact:
  assumes "0 < sint pts" "0 \<le> sint c" "sint c < 2 ^ 32"
    and "unat old * nat (sint c) < 2 ^ 256"
  shows "\<exists>bnNew. arith_div (arith_mul old c) pts = Inr bnNew
            \<and> unat bnNew = unat old * nat (sint c) div nat (sint pts)"
proof -
  define k where "k = sint c"
  define e where "e = sint pts"
  have p: "e < 2 ^ 31" using sint_lt [of pts] by (simp add: e_def)
  then have p32: "e < 2 ^ 32" by simp
  have e0: "0 < e" using assms(1) by (simp add: e_def)
  have k0: "0 \<le> k" "k < 2 ^ 32" using assms(2,3) by (simp_all add: k_def)
  have nz: "(word_of_int e :: arith_uint256) \<noteq> 0"
    using e0 p by (rule word_of_int_256_eq_0)
  have uc: "unat (word_of_int k :: arith_uint256) = nat k"
    using k0 by (rule unat_word_of_int_small)
  have up: "unat (word_of_int e :: arith_uint256) = nat e"
    using e0 p32 by (intro unat_word_of_int_small) simp_all
  have a4: "unat old * nat k < 2 ^ 256" using assms(4) by (simp add: k_def)
  have m: "unat (old * word_of_int k) = unat old * nat k"
    using a4 unat_mult_lem [of old "word_of_int k"] by (simp add: uc)
  have q: "unat (old * word_of_int k div word_of_int e) = unat old * nat k div nat e"
    by (simp only: unat_div m up)
  have mul: "arith_mul old c = old * word_of_int k"
    unfolding arith_mul_def k_def by (simp only: ucast_timespan [OF assms(2,3)])
  have dv: "(ucast (int32_to_int64 pts) :: arith_uint256) = word_of_int e"
    unfolding e_def by (rule ucast_divisor [OF assms(1)])
  have "arith_div (arith_mul old c) pts = Inr (old * word_of_int k div word_of_int e)"
    using nz by (simp only: arith_div_def Let_def mul dv if_False)
  then show ?thesis using q by (simp add: k_def e_def)
qed

lemma retarget_unat:
  assumes "0 < sint pts" "0 \<le> sint c" "sint c < 2 ^ 32"
  shows "\<exists>bnNew. retarget old c pts ceiling = Inr bnNew
           \<and> unat bnNew
               = min (unat old * nat (sint c) mod 2 ^ 256 div nat (sint pts)) (unat ceiling)"
proof -
  define k where "k = sint c"
  define e where "e = sint pts"
  have p: "e < 2 ^ 31" using sint_lt [of pts] by (simp add: e_def)
  then have p32: "e < 2 ^ 32" by simp
  have e0: "0 < e" using assms(1) by (simp add: e_def)
  have k0: "0 \<le> k" "k < 2 ^ 32" using assms(2,3) by (simp_all add: k_def)
  have nz: "(word_of_int e :: arith_uint256) \<noteq> 0"
    using e0 p by (rule word_of_int_256_eq_0)
  have uc: "unat (word_of_int k :: arith_uint256) = nat k"
    using k0 by (rule unat_word_of_int_small)
  have up: "unat (word_of_int e :: arith_uint256) = nat e"
    using e0 p32 by (intro unat_word_of_int_small) simp_all
  have m: "unat (old * word_of_int k) = unat old * nat k mod 2 ^ 256"
    using unat_word_ariths(2) [of old "word_of_int k"] by (simp add: uc)
  have q: "unat (old * word_of_int k div word_of_int e)
             = unat old * nat k mod 2 ^ 256 div nat e"
    by (simp only: unat_div m up)
  have mul: "arith_mul old c = old * word_of_int k"
    unfolding arith_mul_def k_def by (simp only: ucast_timespan [OF assms(2,3)])
  have dv: "(ucast (int32_to_int64 pts) :: arith_uint256) = word_of_int e"
    unfolding e_def by (rule ucast_divisor [OF assms(1)])
  have d: "arith_div (arith_mul old c) pts = Inr (old * word_of_int k div word_of_int e)"
    using nz by (simp only: arith_div_def Let_def mul dv if_False)
  have "retarget old c pts ceiling
          = Inr (if ceiling < old * word_of_int k div word_of_int e then ceiling
                 else old * word_of_int k div word_of_int e)"
    by (simp only: retarget_def d sum.case)
  moreover have "unat (if ceiling < old * word_of_int k div word_of_int e then ceiling
                 else old * word_of_int k div word_of_int e)
       = min (unat old * nat k mod 2 ^ 256 div nat e) (unat ceiling)"
    using q by (simp add: word_less_nat_alt min_def)
  ultimately show ?thesis by (simp add: k_def e_def)
qed

lemma CalculateNextWorkRequired_modulo:
  assumes "\<not> fPowNoRetargeting params"
    and "powTargetTimespan_limit pindexLast params = (pts, limit)"
    and "0 <s pts"
    and "sint pts * sint limit < 2 ^ 31"
  shows "CalculateNextWorkRequired pindexLast first params
       = Inr (GetCompact (of_nat (min
           (unat (fst (SetCompact (nBits pindexLast)))
              * nat (clamp_timespan (sint (GetBlockTime pindexLast - first)) (sint pts)
                       (sint limit))
              mod 2 ^ 256 div nat (sint pts))
           (unat (powLimit params)))))"
proof -
  have pos: "0 < sint pts" using assms(3) by (simp add: word_sless_alt)
  have lim: "limit = 2 \<or> limit = 4" using assms(2) by (rule limit_cases)
  let ?c = "limit_adjustment_step (GetBlockTime pindexLast - first) pts limit"
  have c: "sint ?c = clamp_timespan (sint (GetBlockTime pindexLast - first)) (sint pts) (sint limit)"
    using pos lim assms(4) by (rule sint_limit_adjustment_step)
  have b: "0 \<le> sint ?c" "sint ?c \<le> sint pts * sint limit"
    using clamp_timespan_bounds [OF pos, of "sint limit"] lim by (auto simp: c)
  have b32: "sint ?c < 2 ^ 32" using b(2) assms(4) by simp
  obtain bnNew where r: "retarget (fst (SetCompact (nBits pindexLast))) ?c pts (powLimit params)
        = Inr bnNew"
    and u: "unat bnNew = min (unat (fst (SetCompact (nBits pindexLast))) * nat (sint ?c)
                               mod 2 ^ 256 div nat (sint pts)) (unat (powLimit params))"
    using retarget_unat [OF pos b(1) b32] by blast
  have "bnNew = of_nat (unat bnNew)" by simp
  then have "bnNew = of_nat (min (unat (fst (SetCompact (nBits pindexLast))) * nat (sint ?c)
                               mod 2 ^ 256 div nat (sint pts)) (unat (powLimit params)))"
    by (simp only: u)
  then show ?thesis
    using assms(1,2) r by (simp add: CalculateNextWorkRequired_def Let_def c)
qed

subsection \<open>CheckProofOfWork\<close>

text \<open>
  C1. \<open>CheckProofOfWork\<close> decodes the bits and returns false when the decoded target
  is negative, zero, overflowing or above \<open>powLimit\<close>; otherwise it returns true
  exactly when the numeric value of the hash is at most the target. For bits that
  decode to a valid target \<open>T\<close>, the hash \<open>T\<close> is accepted and a hash of value
  \<open>T + 1\<close> is rejected; bits that decode with the overflow flag set are rejected
  for every hash.
\<close>

theorem CheckProofOfWork_correct:
  assumes "SetCompact bits = (T, fNegative, fOverflow)"
  shows "(fNegative \<or> T = 0 \<or> fOverflow \<or> powLimit params < T
            \<longrightarrow> \<not> CheckProofOfWork hash bits params)
       \<and> (\<not> fNegative \<and> T \<noteq> 0 \<and> \<not> fOverflow \<and> T \<le> powLimit params
            \<longrightarrow> (CheckProofOfWork hash bits params \<longleftrightarrow> unat hash \<le> unat T)
              \<and> CheckProofOfWork T bits params
              \<and> (unat hash = unat T + 1 \<longrightarrow> \<not> CheckProofOfWork hash bits params))
       \<and> (fOverflow \<longrightarrow> \<not> CheckProofOfWork hash bits params)"
  using assms by (auto simp: CheckProofOfWork_def word_le_nat_alt word_less_nat_alt)

theorem CheckProofOfWork_correct_witness:
  "SetCompact 0x1d00ffff
     = (0xffff0000000000000000000000000000000000000000000000000000, False, False)
   \<and> CheckProofOfWork 0xffff0000000000000000000000000000000000000000000000000000
        0x1d00ffff main_params
   \<and> \<not> CheckProofOfWork 0xffff0000000000000000000000000000000000000000000000000001
        0x1d00ffff main_params
   \<and> CheckProofOfWork 0xfffe0000000000000000000000000000000000000000000000000000
        0x1d00ffff main_params"
proof -
  have d: "SetCompact 0x1d00ffff
     = (0xffff0000000000000000000000000000000000000000000000000000, False, False)"
    by (simp add: SetCompact_def)
  have p: "powLimit main_params
     = 0xffff0000000000000000000000000000000000000000000000000000"
    by (simp add: main_params_def)
  show ?thesis
    using CheckProofOfWork_correct [OF d, of main_params
        "0xffff0000000000000000000000000000000000000000000000000001"]
      CheckProofOfWork_correct [OF d, of main_params
        "0xfffe0000000000000000000000000000000000000000000000000000"]
    by (simp add: d p)
qed

subsection \<open>GetNextWorkRequired: the genesis case and the fork boundary\<close>

text \<open>
  C4. A call of \<open>GetNextWorkRequired\<close> without a previous node: the assertion of
  line 18 fails before the genesis branch of lines 22 and 23 is reached, so the call
  does not return \<open>powLimit\<close> in compact form.
\<close>

theorem GetNextWorkRequired_genesis_asserts:
  "GetNextWorkRequired None pblock params = Inl AssertionFailed"
  by (simp add: GetNextWorkRequired_def)

text \<open>
  C6. For every previous node and candidate block: when the candidate height (the
  previous node's height plus one) is the fork height, the result is \<open>powLimit\<close>
  in compact form; when it is the fork height plus one, the result is
  \<open>BCDBeginPowLimit\<close> in compact form. Neither depends on the interval position,
  the timestamps or the minimum-difficulty flag.
\<close>

theorem GetNextWorkRequired_fork_boundary:
  "(nHeight pindex + 1 = BCDHeight params \<longrightarrow>
      GetNextWorkRequired (Some pindex) pblock params = Inr (GetCompact (powLimit params)))
   \<and> (nHeight pindex + 1 = BCDHeight params + 1 \<longrightarrow>
      GetNextWorkRequired (Some pindex) pblock params
        = Inr (GetCompact (BCDBeginPowLimit params)))"
  by (simp add: GetNextWorkRequired_def)

theorem GetNextWorkRequired_fork_boundary_witness:
  "GetNextWorkRequired (Some (CBlockIndex 495865 1511000000 0x1800ce4b None))
       \<lparr>header_nTime = 1511000600\<rparr> main_params = Inr 0x1d00ffff
   \<and> GetNextWorkRequired (Some (CBlockIndex 495866 1511000600 0x1d00ffff None))
       \<lparr>header_nTime = 1511001200\<rparr> test_params = Inr 0x1e00ffff"
proof -
  have a: "GetCompact (powLimit main_params) = 0x1d00ffff"
    by (simp add: main_params_def GetCompact_def byte_length.simps)
  have b: "GetCompact (BCDBeginPowLimit test_params) = 0x1e00ffff"
    by (simp add: test_params_def main_params_def GetCompact_def byte_length.simps)
  have h1: "nHeight (CBlockIndex 495865 1511000000 0x1800ce4b None) + 1
              = BCDHeight main_params"
    by (simp add: main_params_def)
  have h2: "nHeight (CBlockIndex 495866 1511000600 0x1d00ffff None) + 1
              = BCDHeight test_params + 1"
    by (simp add: test_params_def main_params_def)
  show ?thesis
    using GetNextWorkRequired_fork_boundary
            [of "CBlockIndex 495865 1511000000 0x1800ce4b None" main_params
                "\<lparr>header_nTime = 1511000600\<rparr>"]
          GetNextWorkRequired_fork_boundary
            [of "CBlockIndex 495866 1511000600 0x1d00ffff None" test_params
                "\<lparr>header_nTime = 1511001200\<rparr>"]
          h1 h2 a b
    by simp
qed

subsection \<open>GetNextWorkRequired: between two adjustments\<close>





text \<open>
  C8. At a candidate height that is not a fork boundary and whose era-relative height
  is not a multiple of the era's interval, with \<open>fPowAllowMinDifficultyBlocks\<close>
  false, \<open>GetNextWorkRequired\<close> returns the previous node's bits unchanged.
\<close>

theorem non_boundary_reuse:
  assumes "nHeight pindex + 1 \<noteq> BCDHeight params"
    and "nHeight pindex + 1 \<noteq> BCDHeight params + 1"
    and "era_height_interval pindex params = Inr (height, interval)"
    and "interval \<noteq> 0"
    and "\<not> sint interval dvd sint height"
    and "\<not> fPowAllowMinDifficultyBlocks params"
  shows "GetNextWorkRequired (Some pindex) pblock params = Inr (nBits pindex)"
  using assms by (simp add: GetNextWorkRequired_def smod32_eq_0_iff)

theorem non_boundary_reuse_witness:
  "GetNextWorkRequired (Some (CBlockIndex 100 1231500000 0x1d00ffff None))
      \<lparr>header_nTime = 1231500600\<rparr> main_params = Inr 0x1d00ffff
   \<and> GetNextWorkRequired (Some (CBlockIndex 495900 1511020000 0x1b0404cb None))
      \<lparr>header_nTime = 1511020600\<rparr> main_params = Inr 0x1b0404cb"
proof -
  have e1: "era_height_interval (CBlockIndex 100 1231500000 0x1d00ffff None) main_params
              = Inr (101, 2016)"
    by (simp add: era_height_interval_def DifficultyAdjustmentInterval_main
        int64_to_int32_def) (simp add: main_params_def)
  have e2: "era_height_interval (CBlockIndex 495900 1511020000 0x1b0404cb None) main_params
              = Inr (35, 72)"
    by (simp add: era_height_interval_def main_params_def)
  have f: "\<not> fPowAllowMinDifficultyBlocks main_params"
    by (simp add: main_params_def)
  show ?thesis
    using non_boundary_reuse [OF _ _ e1 _ _ f, of "\<lparr>header_nTime = 1231500600\<rparr>"]
      non_boundary_reuse [OF _ _ e2 _ _ f, of "\<lparr>header_nTime = 1511020600\<rparr>"]
    by (simp add: main_params_def)
qed

text \<open>
  C10. With \<open>fPowAllowMinDifficultyBlocks\<close> false, the result does not depend on
  the candidate block: two calls with the same previous node and parameters return the
  same bits, whatever the two headers' timestamps are.
\<close>

theorem GetNextWorkRequired_ignores_block_time:
  "\<not> fPowAllowMinDifficultyBlocks params \<Longrightarrow>
     GetNextWorkRequired pindexLast pblock params
       = GetNextWorkRequired pindexLast pblock' params"
  by (simp add: GetNextWorkRequired_def Let_def split: option.split sum.split prod.split)

theorem GetNextWorkRequired_ignores_block_time_witness:
  "\<not> fPowAllowMinDifficultyBlocks main_params
   \<and> GetNextWorkRequired (Some (CBlockIndex 100 1231500000 0x1d00ffff None))
         \<lparr>header_nTime = 1231500001\<rparr> main_params
     = GetNextWorkRequired (Some (CBlockIndex 100 1231500000 0x1d00ffff None))
         \<lparr>header_nTime = 1231599999\<rparr> main_params"
proof -
  have h: "\<not> fPowAllowMinDifficultyBlocks main_params"
    by (simp add: main_params_def)
  show ?thesis
    using h GetNextWorkRequired_ignores_block_time [OF h,
        of "Some (CBlockIndex 100 1231500000 0x1d00ffff None)"
           "\<lparr>header_nTime = 1231500001\<rparr>" "\<lparr>header_nTime = 1231599999\<rparr>"]
    by simp
qed

subsection \<open>CalculateNextWorkRequired\<close>

text \<open>
  C2, amended. With retargeting enabled, \<open>CalculateNextWorkRequired\<close> clamps the
  elapsed timespan into the interval from \<open>expected / factor\<close> (truncated) to
  \<open>expected * factor\<close>, multiplies the old target by the clamped timespan modulo
  \<open>2 ^ 256\<close>, divides by the expected timespan with truncation, caps the result at
  \<open>powLimit\<close> and returns its compact form. Whenever the product of the old target
  and the clamped timespan is below \<open>2 ^ 256\<close>, the result is the compact form of
  the spec's new target. Before the fork (factor 4), an elapsed timespan of 100 times
  the expected one gives the same result as an elapsed timespan of exactly four times
  the expected one. The expected timespan is positive and its product with the factor
  fits the type \<^verbatim>\<open>int\<close>.
\<close>

theorem CalculateNextWorkRequired_retargets:
  assumes "\<not> fPowNoRetargeting params"
    and "powTargetTimespan_limit pindexLast params = (pts, limit)"
    and "0 <s pts"
    and "sint pts * sint limit < 2 ^ 31"
  shows "CalculateNextWorkRequired pindexLast first params
       = Inr (GetCompact (of_nat (min
           (unat (fst (SetCompact (nBits pindexLast)))
              * nat (clamp_timespan (sint (GetBlockTime pindexLast - first)) (sint pts)
                       (sint limit))
              mod 2 ^ 256 div nat (sint pts))
           (unat (powLimit params)))))
     \<and> (unat (fst (SetCompact (nBits pindexLast)))
            * nat (clamp_timespan (sint (GetBlockTime pindexLast - first)) (sint pts)
                     (sint limit)) < 2 ^ 256 \<longrightarrow>
          CalculateNextWorkRequired pindexLast first params
        = Inr (GetCompact (of_nat (new_target
            (unat (fst (SetCompact (nBits pindexLast))))
            (nat (clamp_timespan (sint (GetBlockTime pindexLast - first)) (sint pts)
                    (sint limit)))
            (nat (sint pts)) (unat (powLimit params))))))
     \<and> (limit = 4 \<longrightarrow>
          CalculateNextWorkRequired pindexLast
              (GetBlockTime pindexLast - 100 * int32_to_int64 pts) params
        = CalculateNextWorkRequired pindexLast
              (GetBlockTime pindexLast - 4 * int32_to_int64 pts) params)"
proof -
  have pos: "0 < sint pts" using assms(3) by (simp add: word_sless_alt)
  have eq: "\<And>f. CalculateNextWorkRequired pindexLast f params
       = Inr (GetCompact (of_nat (min
           (unat (fst (SetCompact (nBits pindexLast)))
              * nat (clamp_timespan (sint (GetBlockTime pindexLast - f)) (sint pts)
                       (sint limit))
              mod 2 ^ 256 div nat (sint pts))
           (unat (powLimit params)))))"
    using assms by (rule CalculateNextWorkRequired_modulo)
  have exact: "CalculateNextWorkRequired pindexLast first params
        = Inr (GetCompact (of_nat (new_target
            (unat (fst (SetCompact (nBits pindexLast))))
            (nat (clamp_timespan (sint (GetBlockTime pindexLast - first)) (sint pts)
                    (sint limit)))
            (nat (sint pts)) (unat (powLimit params)))))"
    if "unat (fst (SetCompact (nBits pindexLast)))
            * nat (clamp_timespan (sint (GetBlockTime pindexLast - first)) (sint pts)
                     (sint limit)) < 2 ^ 256"
    using that by (simp only: eq new_target_def mod_less)
  have "limit = 4 \<Longrightarrow>
      CalculateNextWorkRequired pindexLast
          (GetBlockTime pindexLast - 100 * int32_to_int64 pts) params
    = CalculateNextWorkRequired pindexLast
          (GetBlockTime pindexLast - 4 * int32_to_int64 pts) params"
    by (simp add: eq sint_times_timespan [OF pos] clamp_timespan_above [OF pos])
  then show ?thesis using eq exact by blast
qed

theorem CalculateNextWorkRequired_retargets_witness:
  "CalculateNextWorkRequired (CBlockIndex 2015 1232709600 0x1d00ffff None) 1232104800
       main_params = Inr 0x1c7fff80
   \<and> CalculateNextWorkRequired (CBlockIndex 2015 1232709600 0x1d00ffff None)
         (GetBlockTime (CBlockIndex 2015 1232709600 0x1d00ffff None)
            - 100 * int32_to_int64 1209600) main_params
     = CalculateNextWorkRequired (CBlockIndex 2015 1232709600 0x1d00ffff None)
         (GetBlockTime (CBlockIndex 2015 1232709600 0x1d00ffff None)
            - 4 * int32_to_int64 1209600) main_params"
proof -
  have r: "\<not> fPowNoRetargeting main_params" by (simp add: main_params_def)
  have l: "powTargetTimespan_limit (CBlockIndex 2015 1232709600 0x1d00ffff None) main_params
             = (1209600, 4)"
    by (simp add: powTargetTimespan_limit_def main_params_def int64_to_int32_def)
  have p: "(0 :: int32) <s 1209600" by (simp add: word_sless_alt)
  have b: "sint (1209600 :: int32) * sint (4 :: int32) < 2 ^ 31" by simp
  have c: "clamp_timespan
             (sint (GetBlockTime (CBlockIndex 2015 1232709600 0x1d00ffff None) - 1232104800))
             1209600 4 = 604800"
    by (simp add: GetBlockTime_def clamp_timespan_def signed_divide_int_def)
  have d: "fst (SetCompact 0x1d00ffff)
             = 0xffff0000000000000000000000000000000000000000000000000000"
    by (simp add: SetCompact_def)
  have t: "GetCompact (of_nat (new_target
             0xffff0000000000000000000000000000000000000000000000000000 604800 1209600
             (unat (powLimit main_params)))) = 0x1c7fff80"
    by (simp add: new_target_def main_params_def GetCompact_def byte_length.simps)
  note w = CalculateNextWorkRequired_retargets [OF r l p b, of 1232104800]
  have e: "CalculateNextWorkRequired (CBlockIndex 2015 1232709600 0x1d00ffff None) 1232104800
       main_params = Inr 0x1c7fff80"
    using w [THEN conjunct2, THEN conjunct1] by (simp add: c d t)
  show ?thesis
    using e w [THEN conjunct2, THEN conjunct2] by simp
qed

text \<open>
  C2 as stated fails: with the old target \<open>0x7fffff * 2 ^ 232\<close> (bits
  \<open>0x207fffff\<close>), a ceiling of 255 bits and an elapsed timespan of 100 times the
  expected one, the clamped timespan is 4838400 and the spec's new target is the
  ceiling, \<open>0x207fffff\<close> in compact form; the code returns \<open>0x1e09debb\<close>.
\<close>

theorem CalculateNextWorkRequired_formula_counterexample:
  "\<not> fPowNoRetargeting wide_params
   \<and> powTargetTimespan_limit (CBlockIndex 2015 1232709600 0x207fffff None) wide_params
       = (1209600, 4)
   \<and> clamp_timespan
         (sint (GetBlockTime (CBlockIndex 2015 1232709600 0x207fffff None) - 1111749600))
         1209600 4 = 4838400
   \<and> CalculateNextWorkRequired (CBlockIndex 2015 1232709600 0x207fffff None) 1111749600
         wide_params = Inr 0x1e09debb
   \<and> GetCompact (of_nat (new_target (unat (fst (SetCompact 0x207fffff))) 4838400 1209600
         (unat (powLimit wide_params)))) = 0x207fffff"
  by (simp add: CalculateNextWorkRequired_def powTargetTimespan_limit_def wide_params_def
      main_params_def retarget_def arith_div_def arith_mul_def limit_adjustment_step_def
      limit_from_below_def limit_from_above_def int32_to_int64_def int64_to_int32_def
      sdiv32_def signed_divide_int_def GetBlockTime_def SetCompact_def GetCompact_def
      byte_length.simps word_sless_alt clamp_timespan_def new_target_def)

text \<open>
  C3, amended. The product of the old target and the clamped timespan is computed in
  the 256-bit target type, that is modulo \<open>2 ^ 256\<close>. Whenever the mathematical
  product is below \<open>2 ^ 256\<close>, multiplying and then dividing yields the exact
  truncated quotient.
\<close>

theorem multiply_then_divide_exact_below_2_256:
  assumes "powTargetTimespan_limit pindexLast params = (pts, limit)"
    and "0 <s pts"
    and "sint pts * sint limit < 2 ^ 31"
    and "unat old * nat (clamp_timespan (sint raw) (sint pts) (sint limit)) < 2 ^ 256"
  shows "\<exists>bnNew. arith_div (arith_mul old (limit_adjustment_step raw pts limit)) pts = Inr bnNew
          \<and> unat bnNew
              = unat old * nat (clamp_timespan (sint raw) (sint pts) (sint limit))
                  div nat (sint pts)"
proof -
  have pos: "0 < sint pts" using assms(2) by (simp add: word_sless_alt)
  have lim: "limit = 2 \<or> limit = 4" using assms(1) by (rule limit_cases)
  have c: "sint (limit_adjustment_step raw pts limit)
             = clamp_timespan (sint raw) (sint pts) (sint limit)"
    using pos lim assms(3) by (rule sint_limit_adjustment_step)
  have b: "0 \<le> clamp_timespan (sint raw) (sint pts) (sint limit)"
          "clamp_timespan (sint raw) (sint pts) (sint limit) \<le> sint pts * sint limit"
    using clamp_timespan_bounds [OF pos, of "sint limit"] lim by auto
  have b32: "clamp_timespan (sint raw) (sint pts) (sint limit) < 2 ^ 32"
    using b(2) assms(3) by simp
  show ?thesis
    using multiply_then_divide_exact [of pts "limit_adjustment_step raw pts limit" old]
      pos b(1) b32 assms(4)
    by (simp only: c)
qed

theorem multiply_then_divide_exact_below_2_256_witness:
  "\<exists>bnNew. arith_div (arith_mul 0xffff0000000000000000000000000000000000000000000000000000
                (limit_adjustment_step 604800 1209600 4)) 1209600 = Inr bnNew
      \<and> unat bnNew = 0x7fff8000000000000000000000000000000000000000000000000000"
proof -
  have l: "powTargetTimespan_limit (CBlockIndex 2015 1232709600 0x1d00ffff None) main_params
             = (1209600, 4)"
    by (simp add: powTargetTimespan_limit_def main_params_def int64_to_int32_def)
  have p: "(0 :: int32) <s 1209600" by (simp add: word_sless_alt)
  have b: "sint (1209600 :: int32) * sint (4 :: int32) < 2 ^ 31" by simp
  have c: "clamp_timespan (sint (604800 :: int64)) (sint (1209600 :: int32)) (sint (4 :: int32))
             = 604800"
    by (simp add: clamp_timespan_def signed_divide_int_def)
  have h: "unat (0xffff0000000000000000000000000000000000000000000000000000 :: arith_uint256)
             * nat (clamp_timespan (sint (604800 :: int64)) (sint (1209600 :: int32))
                      (sint (4 :: int32))) < 2 ^ 256"
    by (simp only: c) simp
  show ?thesis
    using multiply_then_divide_exact_below_2_256 [OF l p b h]
    by (simp only: c) simp
qed

text \<open>
  C3 as stated fails: the old target \<open>0x7fffff * 2 ^ 232\<close> (bits \<open>0x207fffff\<close>)
  times the clamped timespan 4838400 exceeds \<open>2 ^ 256\<close>; the code's quotient is not
  the mathematical one, and the returned bits are not the ceiling's.
\<close>

theorem multiply_then_divide_wraps_counterexample:
  "arith_div (arith_mul (fst (SetCompact 0x207fffff)) (limit_adjustment_step 6048000 1209600 4))
       1209600
     = Inr 0x9debbc99a778556334111eefccdaab889667445223000ddebbc99a77855
   \<and> unat (fst (SetCompact 0x207fffff)) * nat (sint (limit_adjustment_step 6048000 1209600 4))
         div 1209600
     = 0x1fffffc0000000000000000000000000000000000000000000000000000000000
   \<and> unat (0x9debbc99a778556334111eefccdaab889667445223000ddebbc99a77855 :: arith_uint256)
     \<noteq> 0x1fffffc0000000000000000000000000000000000000000000000000000000000
   \<and> CalculateNextWorkRequired (CBlockIndex 2015 1232709600 0x207fffff None) 1226661600
         wide_params = Inr 0x1e09debb
   \<and> GetCompact (powLimit wide_params) = 0x207fffff"
  by (simp add: CalculateNextWorkRequired_def powTargetTimespan_limit_def wide_params_def
      main_params_def retarget_def arith_div_def arith_mul_def limit_adjustment_step_def
      limit_from_below_def limit_from_above_def int32_to_int64_def int64_to_int32_def
      sdiv32_def signed_divide_int_def GetBlockTime_def SetCompact_def GetCompact_def
      byte_length.simps word_sless_alt)

text \<open>
  C5, amended. \<open>CheckProofOfWork\<close> rejects every compact value whose decoded target
  is negative, zero, overflowing or above \<open>powLimit\<close>. \<open>CalculateNextWorkRequired\<close>
  does not validate the previous block's bits: without retargeting it returns them as
  they are, and otherwise it computes the new target from the decoded magnitude,
  whatever the sign and overflow flags say, caps it at \<open>powLimit\<close> and returns its
  compact form.
\<close>

theorem malformed_bits_handling:
  assumes "powTargetTimespan_limit pindexLast params = (pts, limit)"
    and "0 <s pts"
  shows "(SetCompact bits = (T, fNegative, fOverflow) \<longrightarrow>
            fNegative \<or> T = 0 \<or> fOverflow \<or> powLimit params < T \<longrightarrow>
            \<not> CheckProofOfWork hash bits params)
     \<and> (fPowNoRetargeting params \<longrightarrow>
            CalculateNextWorkRequired pindexLast first params = Inr (nBits pindexLast))
     \<and> (\<not> fPowNoRetargeting params \<longrightarrow>
          (\<exists>bnNew. retarget (fst (SetCompact (nBits pindexLast)))
                      (limit_adjustment_step (GetBlockTime pindexLast - first) pts limit)
                      pts (powLimit params) = Inr bnNew
                  \<and> bnNew \<le> powLimit params
                  \<and> CalculateNextWorkRequired pindexLast first params
                      = Inr (GetCompact bnNew)))"
proof -
  have pos: "0 < sint pts" using assms(2) by (simp add: word_sless_alt)
  have a: "SetCompact bits = (T, fNegative, fOverflow) \<longrightarrow>
            fNegative \<or> T = 0 \<or> fOverflow \<or> powLimit params < T \<longrightarrow>
            \<not> CheckProofOfWork hash bits params"
    by (auto simp: CheckProofOfWork_def)
  have b: "fPowNoRetargeting params \<longrightarrow>
            CalculateNextWorkRequired pindexLast first params = Inr (nBits pindexLast)"
    by (simp add: CalculateNextWorkRequired_def)
  have c: "\<not> fPowNoRetargeting params \<longrightarrow>
          (\<exists>bnNew. retarget (fst (SetCompact (nBits pindexLast)))
                      (limit_adjustment_step (GetBlockTime pindexLast - first) pts limit)
                      pts (powLimit params) = Inr bnNew
                  \<and> bnNew \<le> powLimit params
                  \<and> CalculateNextWorkRequired pindexLast first params
                      = Inr (GetCompact bnNew))"
    using retarget_total [OF pos, of "fst (SetCompact (nBits pindexLast))"
        "limit_adjustment_step (GetBlockTime pindexLast - first) pts limit" "powLimit params"]
      assms(1)
    by (auto simp: CalculateNextWorkRequired_def Let_def)
  show ?thesis using a b c by blast
qed

theorem malformed_bits_handling_witness:
  "SetCompact 0x04800001 = (0x100, True, False)
   \<and> \<not> CheckProofOfWork 1 0x04800001 main_params
   \<and> (\<exists>bnNew. bnNew \<le> powLimit main_params
         \<and> CalculateNextWorkRequired (CBlockIndex 2015 1232709600 0x04800001 None)
              1231500000 main_params = Inr (GetCompact bnNew))"
proof -
  have l: "powTargetTimespan_limit (CBlockIndex 2015 1232709600 0x04800001 None) main_params
             = (1209600, 4)"
    by (simp add: powTargetTimespan_limit_def main_params_def int64_to_int32_def)
  have p: "(0 :: int32) <s 1209600" by (simp add: word_sless_alt)
  have d: "SetCompact 0x04800001 = (0x100, True, False)"
    by (simp add: SetCompact_def)
  have r: "\<not> fPowNoRetargeting main_params" by (simp add: main_params_def)
  show ?thesis
    using malformed_bits_handling [OF l p, of "0x04800001" "0x100" True False 1 1231500000] d r
    by auto
qed

text \<open>
  C5 as stated fails: the bits \<open>0x04800001\<close> decode to a negative target, and
  \<open>CalculateNextWorkRequired\<close> returns new bits computed from the magnitude 256.
\<close>

theorem CalculateNextWorkRequired_negative_bits_counterexample:
  "SetCompact 0x04800001 = (0x100, True, False)
   \<and> CalculateNextWorkRequired (CBlockIndex 2015 1232709600 0x04800001 None) 1231500000
         main_params = Inr 0x02010000"
  by (simp add: CalculateNextWorkRequired_def powTargetTimespan_limit_def
      main_params_def retarget_def arith_div_def arith_mul_def limit_adjustment_step_def
      limit_from_below_def limit_from_above_def int32_to_int64_def int64_to_int32_def
      sdiv32_def signed_divide_int_def GetBlockTime_def SetCompact_def GetCompact_def
      byte_length.simps word_sless_alt)



end
